theory Spec2Isabelle
  imports Main "HOL-Library.Word"
begin

section \<open>The collaboration client of online-doc\<close>

text \<open>
  A shallow embedding of \<^verbatim>\<open>frontend/src/services/documentService.ts\<close>, class
  \<^verbatim>\<open>CollaborationManager\<close>: the wire encoding of Yjs updates, the message handler, the
  outgoing queue and the reconnection timer.

  JavaScript strings are modelled as \<^typ>\<open>string\<close>: every string the manager builds or
  inspects (base64 text, the binary strings made of bytes, URLs, type tags) consists of
  code units below 256. Bytes of a \<^verbatim>\<open>Uint8Array\<close> are \<^typ>\<open>8 word\<close>.
\<close>

subsection \<open>Base64 as provided by the platform\<close>

text \<open>
  \<^verbatim>\<open>btoa\<close> and \<^verbatim>\<open>atob\<close> are browser functions. They are written out here after the
  WHATWG definitions (forgiving-base64 encode and decode, RFC 4648 alphabet): \<^verbatim>\<open>btoa\<close>
  regroups the bytes of its argument into 6-bit values, looks them up in the alphabet and
  pads with \<^verbatim>\<open>=\<close> to a multiple of four; \<^verbatim>\<open>atob\<close> removes ASCII whitespace, removes
  one or two trailing \<^verbatim>\<open>=\<close> when the length is a multiple of four, fails when the
  remaining length is 1 modulo 4 or a character is outside the alphabet, and regroups
  the 6-bit values into bytes, dropping the incomplete last byte.
\<close>

datatype js_error = InvalidCharacterError

definition b64_alphabet :: string where
  "b64_alphabet = ''ABCDEFGHIJKLMNOPQRSTUVWXYZabcdefghijklmnopqrstuvwxyz0123456789+/''"

fun sextets :: "nat list \<Rightarrow> nat list" where
  "sextets (a # b # c # rest) =
     [a div 4, (a mod 4) * 16 + b div 16, (b mod 16) * 4 + c div 64, c mod 64] @ sextets rest"
| "sextets [a, b] = [a div 4, (a mod 4) * 16 + b div 16, (b mod 16) * 4]"
| "sextets [a] = [a div 4, (a mod 4) * 16]"
| "sextets [] = []"

definition btoa :: "string \<Rightarrow> string" where
  "btoa s =
     (let out = map (\<lambda>i. b64_alphabet ! i) (sextets (map of_char s))
      in out @ replicate ((4 - length out mod 4) mod 4) (CHR ''=''))"

definition ascii_whitespace :: "char \<Rightarrow> bool" where
  "ascii_whitespace c \<longleftrightarrow> c \<in> set [CHR 0x09, CHR 0x0A, CHR 0x0C, CHR 0x0D, CHR 0x20]"

definition b64_index :: "char \<Rightarrow> nat option" where
  "b64_index c =
     (let i = length (takeWhile (\<lambda>x. x \<noteq> c) b64_alphabet)
      in if i < length b64_alphabet then Some i else None)"

definition strip_padding :: "string \<Rightarrow> string" where
  "strip_padding d =
     (case rev d of
        c1 # c2 # r \<Rightarrow>
          if c1 = CHR ''='' \<and> c2 = CHR ''='' then rev r
          else if c1 = CHR ''='' then rev (c2 # r)
          else d
      | [c1] \<Rightarrow> if c1 = CHR ''='' then [] else d
      | [] \<Rightarrow> d)"

fun octets :: "nat list \<Rightarrow> nat list" where
  "octets (p # q # r # s # rest) =
     [p * 4 + q div 16, (q mod 16) * 16 + r div 4, (r mod 4) * 64 + s] @ octets rest"
| "octets [p, q, r] = [p * 4 + q div 16, (q mod 16) * 16 + r div 4]"
| "octets [p, q] = [p * 4 + q div 16]"
| "octets [p] = []"
| "octets [] = []"

definition atob :: "string \<Rightarrow> js_error + string" where
  "atob data =
     (let d1 = filter (\<lambda>c. \<not> ascii_whitespace c) data;
          d2 = (if length d1 mod 4 = 0 then strip_padding d1 else d1)
      in if length d2 mod 4 = 1 then Inl InvalidCharacterError
         else (case those (map b64_index d2) of
                 None \<Rightarrow> Inl InvalidCharacterError
               | Some vs \<Rightarrow> Inr (map char_of (octets vs))))"

subsection \<open>Wire encoding of updates\<close>

text \<open>
  \<^verbatim>\<open>arrayBufferToBase64\<close> appends \<^verbatim>\<open>String.fromCharCode(bytes[i])\<close> for every index and
  passes the binary string to \<^verbatim>\<open>btoa\<close>; \<^verbatim>\<open>base64ToArrayBuffer\<close> stores
  \<^verbatim>\<open>binaryString.charCodeAt(i)\<close> at every index of a fresh \<^verbatim>\<open>Uint8Array\<close>. An exception
  of \<^verbatim>\<open>atob\<close> propagates to the caller.
\<close>

definition arrayBufferToBase64 :: "8 word list \<Rightarrow> string" where
  "arrayBufferToBase64 buffer = btoa (map (\<lambda>b. char_of (unat b)) buffer)"

definition base64ToArrayBuffer :: "string \<Rightarrow> js_error + 8 word list" where
  "base64ToArrayBuffer base64 =
     (case atob base64 of
        Inl e \<Rightarrow> Inl e
      | Inr binaryString \<Rightarrow> Inr (map (\<lambda>c. word_of_nat (of_char c)) binaryString))"

subsection \<open>Messages\<close>

text \<open>
  The values of the enum \<^verbatim>\<open>MessageType\<close> are the type tags on the wire.
\<close>

definition SYNC_STEP1 :: string where "SYNC_STEP1 = ''sync_step1''"
definition SYNC_STEP2 :: string where "SYNC_STEP2 = ''sync_step2''"
definition SYNC_UPDATE :: string where "SYNC_UPDATE = ''sync_update''"
definition AWARENESS_UPDATE :: string where "AWARENESS_UPDATE = ''awareness_update''"
definition USER_JOINED :: string where "USER_JOINED = ''user_joined''"
definition USER_LEFT :: string where "USER_LEFT = ''user_left''"
definition ERROR :: string where "ERROR = ''error''"
definition PING :: string where "PING = ''ping''"
definition PONG :: string where "PONG = ''pong''"
definition SERVER_SHUTDOWN :: string where "SERVER_SHUTDOWN = ''server_shutdown''"

definition MessageType :: "string list" where
  "MessageType = [SYNC_STEP1, SYNC_STEP2, SYNC_UPDATE, AWARENESS_UPDATE, USER_JOINED,
     USER_LEFT, ERROR, PING, PONG, SERVER_SHUTDOWN]"

record UserAwareness =
  user_id :: string
  username :: string
  cursor_position :: int
  cursor_color :: string
  selection_start :: "int option"
  selection_end :: "int option"

text \<open>
  Of \<^verbatim>\<open>WebSocketMessage\<close> the record keeps the fields that the manager writes or that
  decide what the handler does to the manager. The remaining fields (\<^verbatim>\<open>version\<close>,
  \<^verbatim>\<open>user_id\<close>, \<^verbatim>\<open>username\<close>, \<^verbatim>\<open>user\<close>, \<^verbatim>\<open>timestamp\<close>, \<^verbatim>\<open>error\<close>, \<^verbatim>\<open>message\<close>,
  \<^verbatim>\<open>code\<close>) are only handed to the optional callbacks and to the console. A field that
  is absent is \<open>None\<close>; \<^verbatim>\<open>reconnect\<close> holds the truthiness of the field.
\<close>

record WebSocketMessage =
  msg_type :: "string option"
  document_id :: "string option"
  update :: "string option"
  state :: "string option"
  awareness :: "UserAwareness option"
  reconnect :: "bool option"

definition sync_step1_message :: "string \<Rightarrow> WebSocketMessage" where
  "sync_step1_message d =
     \<lparr>msg_type = Some SYNC_STEP1, document_id = Some d, update = None, state = None,
      awareness = None, reconnect = None\<rparr>"

definition sync_update_message :: "string \<Rightarrow> string \<Rightarrow> WebSocketMessage" where
  "sync_update_message d base64Update =
     \<lparr>msg_type = Some SYNC_UPDATE, document_id = Some d, update = Some base64Update,
      state = None, awareness = None, reconnect = None\<rparr>"

definition awareness_update_message :: "string \<Rightarrow> UserAwareness \<Rightarrow> WebSocketMessage" where
  "awareness_update_message d localState =
     \<lparr>msg_type = Some AWARENESS_UPDATE, document_id = Some d, update = None, state = None,
      awareness = Some localState, reconnect = None\<rparr>"

definition pong_message :: WebSocketMessage where
  "pong_message =
     \<lparr>msg_type = Some PONG, document_id = None, update = None, state = None,
      awareness = None, reconnect = None\<rparr>"

subsection \<open>The manager and its surroundings\<close>

text \<open>
  A socket is known by the URL it was opened with, its \<^verbatim>\<open>readyState\<close>, and whether
  \<^verbatim>\<open>JSON.stringify\<close> or \<^verbatim>\<open>send\<close> raise on it (the \<^verbatim>\<open>catch\<close> of \<^verbatim>\<open>sendMessage\<close>).
\<close>

datatype ready_state = CONNECTING | OPEN | CLOSING | CLOSED

record WebSocket =
  url :: string
  readyState :: ready_state
  sendThrows :: bool

text \<open>
  The fields of \<^verbatim>\<open>CollaborationManager\<close>, followed by the two parts of the platform
  that the manager acts on: \<open>wire\<close>, the frames accepted by \<^verbatim>\<open>websocket.send\<close> in
  order, and \<open>timers\<close>, the pending timers of \<^verbatim>\<open>setTimeout\<close> as pairs of handle and
  delay in milliseconds (\<open>nextTimer\<close> is the next handle; handles are positive, hence
  truthy). The document is of any type \<open>'doc\<close>: Yjs is a library outside the
  repository, and \<^verbatim>\<open>Y.applyUpdate\<close> is a parameter of the handlers. The optional
  callbacks (\<^verbatim>\<open>onConnect\<close>, \<^verbatim>\<open>onDisconnect\<close>, \<^verbatim>\<open>onError\<close>, ...) and the console are not
  part of the state; callbacks are taken to return without calling the manager.
\<close>

record 'doc manager =
  yDoc :: 'doc
  websocket :: "WebSocket option"
  documentId :: string
  token :: string
  wsUrl :: string
  reconnectAttempts :: nat
  reconnectTimeout :: "nat option"
  isConnected :: bool
  messageQueue :: "WebSocketMessage list"
  wire :: "WebSocketMessage list"
  timers :: "(nat \<times> nat) list"
  nextTimer :: nat

text \<open>The field \<^verbatim>\<open>maxReconnectAttempts\<close> is initialised to 10 and never assigned.\<close>

definition maxReconnectAttempts :: nat where
  "maxReconnectAttempts = 10"

text \<open>
  The constructor: \<^verbatim>\<open>wsUrl || process.env.NEXT_PUBLIC_WS_URL || 'ws://localhost:8000/ws'\<close>,
  where an absent or empty string is falsy. \<open>doc\<close> is the fresh \<^verbatim>\<open>Y.Doc\<close>.
\<close>

definition js_or :: "string option \<Rightarrow> string \<Rightarrow> string" where
  "js_or a b = (case a of None \<Rightarrow> b | Some x \<Rightarrow> if x = [] then b else x)"

definition constructor ::
  "'doc \<Rightarrow> string \<Rightarrow> string \<Rightarrow> string option \<Rightarrow> string option \<Rightarrow> 'doc manager" where
  "constructor doc docId tok wsUrlArg NEXT_PUBLIC_WS_URL =
     \<lparr>yDoc = doc, websocket = None, documentId = docId, token = tok,
      wsUrl = js_or wsUrlArg (js_or NEXT_PUBLIC_WS_URL ''ws://localhost:8000/ws''),
      reconnectAttempts = 0, reconnectTimeout = None, isConnected = False,
      messageQueue = [], wire = [], timers = [], nextTimer = 1\<rparr>"

subsection \<open>Sending and queueing\<close>

definition sendMessage :: "'doc manager \<Rightarrow> WebSocketMessage \<Rightarrow> 'doc manager" where
  "sendMessage s message =
     (case websocket s of
        None \<Rightarrow> s\<lparr>messageQueue := messageQueue s @ [message]\<rparr>
      | Some ws \<Rightarrow>
          if readyState ws \<noteq> OPEN then s\<lparr>messageQueue := messageQueue s @ [message]\<rparr>
          else if sendThrows ws then s\<lparr>messageQueue := messageQueue s @ [message]\<rparr>
          else s\<lparr>wire := wire s @ [message]\<rparr>)"

text \<open>
  \<^verbatim>\<open>while (this.messageQueue.length > 0 && this.isConnected)\<close>: the loop takes the first
  message off the queue and passes it to \<^verbatim>\<open>sendMessage\<close>, which may put it back at the
  end. The loop need not end, so the result is optional.
\<close>

partial_function (option) flushMessageQueue :: "'doc manager \<Rightarrow> 'doc manager option" where
  "flushMessageQueue s =
     (case messageQueue s of
        [] \<Rightarrow> Some s
      | message # rest \<Rightarrow>
          if isConnected s then flushMessageQueue (sendMessage (s\<lparr>messageQueue := rest\<rparr>) message)
          else Some s)"

declare flushMessageQueue.simps [code]

subsection \<open>Observers of the document and of awareness\<close>

text \<open>
  The origin of a Yjs transaction is any value; \<open>Some x\<close> is the string \<open>x\<close>, \<open>None\<close>
  any value that is not a string.
\<close>

type_synonym origin = "string option"

definition onDocUpdate :: "'doc manager \<Rightarrow> 8 word list \<Rightarrow> origin \<Rightarrow> 'doc manager" where
  "onDocUpdate s upd orig =
     (if orig \<noteq> Some ''server'' \<and> isConnected s
      then sendMessage s (sync_update_message (documentId s) (arrayBufferToBase64 upd))
      else s)"

definition onAwarenessChange :: "'doc manager \<Rightarrow> UserAwareness option \<Rightarrow> 'doc manager" where
  "onAwarenessChange s localState =
     (if isConnected s
      then (case localState of
              None \<Rightarrow> s
            | Some st \<Rightarrow> sendMessage s (awareness_update_message (documentId s) st))
      else s)"

subsection \<open>Reconnection\<close>

text \<open>
  \<^verbatim>\<open>Math.min(1000 * Math.pow(2, this.reconnectAttempts), 30000)\<close>. The powers of two are
  exact in floating point as long as they are finite, and the minimum with 30000 is 30000
  once they are not, so the natural numbers give the same delay.
\<close>

definition scheduleReconnect :: "'doc manager \<Rightarrow> 'doc manager" where
  "scheduleReconnect s =
     (if reconnectTimeout s \<noteq> None then s
      else
        let delay = min (1000 * 2 ^ reconnectAttempts s) 30000
        in s\<lparr>reconnectAttempts := reconnectAttempts s + 1,
             reconnectTimeout := Some (nextTimer s),
             timers := timers s @ [(nextTimer s, delay)],
             nextTimer := nextTimer s + 1\<rparr>)"

definition connect_url :: "'doc manager \<Rightarrow> string" where
  "connect_url s = wsUrl s @ ''/documents/'' @ documentId s @ ''?token='' @ token s"

text \<open>
  \<^verbatim>\<open>connect\<close> stores a new socket for the URL; \<open>accepted\<close> says whether the
  \<^verbatim>\<open>WebSocket\<close> constructor takes the URL. If it raises, the promise is rejected and
  nothing else happens. The four handlers installed on the socket follow.
\<close>

definition connect :: "'doc manager \<Rightarrow> bool \<Rightarrow> 'doc manager" where
  "connect s accepted =
     (if accepted
      then s\<lparr>websocket := Some \<lparr>url = connect_url s, readyState = CONNECTING, sendThrows = False\<rparr>\<rparr>
      else s)"

definition onopen :: "'doc manager \<Rightarrow> 'doc manager option" where
  "onopen s =
     (case flushMessageQueue (s\<lparr>isConnected := True, reconnectAttempts := 0\<rparr>) of
        None \<Rightarrow> None
      | Some s' \<Rightarrow> Some (sendMessage s' (sync_step1_message (documentId s'))))"

definition onerror :: "'doc manager \<Rightarrow> 'doc manager" where
  "onerror s = s"

definition onclose :: "'doc manager \<Rightarrow> nat \<Rightarrow> 'doc manager" where
  "onclose s code =
     (let s' = s\<lparr>isConnected := False\<rparr>
      in if code \<noteq> 1000 \<and> reconnectAttempts s' < maxReconnectAttempts
         then scheduleReconnect s'
         else s')"

text \<open>The callback of the reconnect timer.\<close>

definition onReconnectTimeout :: "'doc manager \<Rightarrow> bool \<Rightarrow> 'doc manager" where
  "onReconnectTimeout s accepted = connect (s\<lparr>reconnectTimeout := None\<rparr>) accepted"

definition disconnect :: "'doc manager \<Rightarrow> 'doc manager" where
  "disconnect s =
     (let s1 = (case reconnectTimeout s of
                  None \<Rightarrow> s
                | Some h \<Rightarrow> s\<lparr>timers := filter (\<lambda>t. fst t \<noteq> h) (timers s),
                               reconnectTimeout := None\<rparr>);
          s2 = (case websocket s1 of
                  None \<Rightarrow> s1
                | Some ws \<Rightarrow> s1\<lparr>websocket := None\<rparr>)
      in s2\<lparr>isConnected := False\<rparr>)"

subsection \<open>Incoming messages\<close>

text \<open>
  \<^verbatim>\<open>handleMessage\<close> receives the result of \<^verbatim>\<open>JSON.parse\<close>: \<open>None\<close> when parsing raises
  or yields no object, which the \<^verbatim>\<open>catch\<close> of the handler absorbs. An exception of
  \<^verbatim>\<open>atob\<close> is absorbed in the same way. \<open>applyUpdate\<close> is \<^verbatim>\<open>Y.applyUpdate\<close>: the
  document it leaves, whether it returns or raises. Yjs then calls the update observer
  with the origin \<^verbatim>\<open>'server'\<close>. The branches for \<^verbatim>\<open>sync_step2\<close> and \<^verbatim>\<open>sync_update\<close> are the
  same code on the fields \<^verbatim>\<open>state\<close> and \<^verbatim>\<open>update\<close>; it is written once, as
  \<open>applyServerUpdate\<close>. The branches that only call a callback or the console return the
  manager as it is.
\<close>

definition applyServerUpdate ::
  "('doc \<Rightarrow> 8 word list \<Rightarrow> 'doc) \<Rightarrow> 'doc manager \<Rightarrow> string option \<Rightarrow> 'doc manager" where
  "applyServerUpdate applyUpdate s field =
     (case field of
        None \<Rightarrow> s
      | Some base64 \<Rightarrow>
          if base64 = [] then s
          else (case base64ToArrayBuffer base64 of
                  Inl e \<Rightarrow> s
                | Inr bytes \<Rightarrow>
                    onDocUpdate (s\<lparr>yDoc := applyUpdate (yDoc s) bytes\<rparr>) bytes (Some ''server'')))"

definition handleMessage ::
  "('doc \<Rightarrow> 8 word list \<Rightarrow> 'doc) \<Rightarrow> 'doc manager \<Rightarrow> WebSocketMessage option \<Rightarrow> 'doc manager" where
  "handleMessage applyUpdate s parsed =
     (case parsed of
        None \<Rightarrow> s
      | Some message \<Rightarrow>
          if msg_type message = Some SYNC_STEP2 then applyServerUpdate applyUpdate s (state message)
          else if msg_type message = Some SYNC_UPDATE then applyServerUpdate applyUpdate s (update message)
          else if msg_type message = Some AWARENESS_UPDATE then s
          else if msg_type message = Some USER_JOINED then s
          else if msg_type message = Some USER_LEFT then s
          else if msg_type message = Some PING then sendMessage s pong_message
          else if msg_type message = Some ERROR then s
          else if msg_type message = Some SERVER_SHUTDOWN then
            (if reconnect message = Some True then scheduleReconnect s else s)
          else s)"

subsection \<open>Runs\<close>

text \<open>
  What can happen to a manager: a call of \<^verbatim>\<open>connect\<close> or \<^verbatim>\<open>disconnect\<close>, a change of
  the current socket made by the platform, a call of one of the socket's handlers, a
  transaction on the document (which changes the document by the update it emits), a
  change of the local awareness state, and a timer that fires. A timer that is not
  pending does not fire.
\<close>

datatype event =
    Connect bool
  | Disconnect
  | Socket ready_state bool
  | Open
  | Message "WebSocketMessage option"
  | Error
  | Close nat
  | DocUpdate "8 word list" origin
  | AwarenessChange "UserAwareness option"
  | Timeout nat bool

fun step ::
  "('doc \<Rightarrow> 8 word list \<Rightarrow> 'doc) \<Rightarrow> 'doc manager \<Rightarrow> event \<Rightarrow> 'doc manager option" where
  "step applyUpdate s (Connect accepted) = Some (connect s accepted)"
| "step applyUpdate s Disconnect = Some (disconnect s)"
| "step applyUpdate s (Socket rs throws) =
     Some (case websocket s of
             None \<Rightarrow> s
           | Some ws \<Rightarrow> s\<lparr>websocket := Some (ws\<lparr>readyState := rs, sendThrows := throws\<rparr>)\<rparr>)"
| "step applyUpdate s Open = onopen s"
| "step applyUpdate s (Message parsed) = Some (handleMessage applyUpdate s parsed)"
| "step applyUpdate s Error = Some (onerror s)"
| "step applyUpdate s (Close code) = Some (onclose s code)"
| "step applyUpdate s (DocUpdate upd orig) =
     Some (onDocUpdate (s\<lparr>yDoc := applyUpdate (yDoc s) upd\<rparr>) upd orig)"
| "step applyUpdate s (AwarenessChange localState) = Some (onAwarenessChange s localState)"
| "step applyUpdate s (Timeout h accepted) =
     Some (if h \<in> fst ` set (timers s)
           then onReconnectTimeout (s\<lparr>timers := filter (\<lambda>t. fst t \<noteq> h) (timers s)\<rparr>) accepted
           else s)"

fun run ::
  "('doc \<Rightarrow> 8 word list \<Rightarrow> 'doc) \<Rightarrow> 'doc manager \<Rightarrow> event list \<Rightarrow> 'doc manager option" where
  "run applyUpdate s [] = Some s"
| "run applyUpdate s (e # es) =
     (case step applyUpdate s e of
        None \<Rightarrow> None
      | Some s' \<Rightarrow> run applyUpdate s' es)"

text \<open>
  For runs on concrete inputs the document is the list of the updates applied to it.
\<close>

definition logUpdate :: "8 word list list \<Rightarrow> 8 word list \<Rightarrow> 8 word list list" where
  "logUpdate doc upd = doc @ [upd]"

definition example_manager :: "8 word list list manager" where
  "example_manager = constructor [] ''d1'' ''t1'' None None"

text \<open>
  The manager of document \<open>d1\<close> after \<^verbatim>\<open>connect\<close>, the opening of the socket and the
  \<^verbatim>\<open>onopen\<close> handler.
\<close>

definition example_connected :: "8 word list list manager" where
  "example_connected =
     example_manager
       \<lparr>websocket := Some \<lparr>url = connect_url example_manager, readyState = OPEN, sendThrows = False\<rparr>,
        isConnected := True,
        wire := [sync_step1_message ''d1'']\<rparr>"

subsection \<open>The endpoint pattern of the specification\<close>

text \<open>
  The specification gives the endpoint as
  \<^verbatim>\<open><scheme>://<host>/sync/documents/{document_id}?token={credential}\<close>. The predicate
  follows these words; it is compared with \<open>connect_url\<close> below.
\<close>

definition sync_endpoint_pattern :: "string \<Rightarrow> string \<Rightarrow> string \<Rightarrow> bool" where
  "sync_endpoint_pattern u d t \<longleftrightarrow>
     (\<exists>scheme host. u = scheme @ ''://'' @ host @ ''/sync/documents/'' @ d @ ''?token='' @ t)"

subsection \<open>Notions used in the proofs\<close>

text \<open>
  \<open>sendable\<close>: \<^verbatim>\<open>sendMessage\<close> writes to the socket. \<open>same_control\<close>: two states differ
  in the queue and the wire at most. \<open>timer_inv\<close>: the pending timers are exactly the
  one whose handle the manager holds.
\<close>

definition sendable :: "'doc manager \<Rightarrow> bool" where
  "sendable s \<longleftrightarrow>
     (case websocket s of None \<Rightarrow> False | Some ws \<Rightarrow> readyState ws = OPEN \<and> \<not> sendThrows ws)"



section \<open>Properties\<close>

subsection \<open>The wire encoding is lossless\<close>

lemma sextets_lt: "\<forall>b\<in>set bs. b < 256 \<Longrightarrow> \<forall>v\<in>set (sextets bs). v < 64"
  by (induction bs rule: sextets.induct) auto

lemma octets_sextets: "\<forall>b\<in>set bs. b < 256 \<Longrightarrow> octets (sextets bs) = bs"
  by (induction bs rule: sextets.induct) auto

lemma length_sextets_cases:
  "length (sextets bs) mod 4 = 0 \<or> length (sextets bs) mod 4 = 2 \<or> length (sextets bs) mod 4 = 3"
  by (induction bs rule: sextets.induct) auto

lemma distinct_alphabet: "distinct b64_alphabet"
  by (simp add: b64_alphabet_def)

lemma length_alphabet: "length b64_alphabet = 64"
  by (simp add: b64_alphabet_def)

lemma alphabet_plain: "c \<in> set b64_alphabet \<Longrightarrow> c \<noteq> CHR ''='' \<and> \<not> ascii_whitespace c"
  by (auto simp: b64_alphabet_def ascii_whitespace_def)

lemma takeWhile_neq_nth:
  "distinct xs \<Longrightarrow> i < length xs \<Longrightarrow> length (takeWhile (\<lambda>x. x \<noteq> xs ! i) xs) = i"
proof (induction xs arbitrary: i)
  case Nil
  then show ?case by simp
next
  case (Cons a xs)
  show ?case
  proof (cases i)
    case 0
    then show ?thesis by simp
  next
    case (Suc j)
    with Cons.prems have "j < length xs" and "a \<noteq> xs ! j" and "distinct xs"
      by auto
    with Cons.IH [of j] Suc show ?thesis by simp
  qed
qed

lemma b64_index_nth: "i < 64 \<Longrightarrow> b64_index (b64_alphabet ! i) = Some i"
  using takeWhile_neq_nth [OF distinct_alphabet, of i]
  by (simp add: b64_index_def length_alphabet)

lemma those_map_Some: "those (map Some xs) = Some xs"
  by (induction xs) auto

lemma strip_padding_pad:
  assumes "CHR ''='' \<notin> set out" and "k \<le> 2"
  shows "strip_padding (out @ replicate k (CHR ''='')) = out"
proof -
  from assms(2) consider "k = 0" | "k = 1" | "k = 2" by linarith
  then show ?thesis
  proof cases
    case 1
    with assms(1) show ?thesis
      by (auto simp: strip_padding_def split: list.splits)
  next
    case 2
    with assms(1) show ?thesis
      by (auto simp: strip_padding_def split: list.splits)
  next
    case 3
    then show ?thesis
      by (auto simp: strip_padding_def numeral_2_eq_2 split: list.splits)
  qed
qed

lemma pad_arith:
  fixes n :: nat
  assumes "n mod 4 = 0 \<or> n mod 4 = 2 \<or> n mod 4 = 3"
  shows "(4 - n mod 4) mod 4 \<le> 2 \<and> (n + (4 - n mod 4) mod 4) mod 4 = 0 \<and> n mod 4 \<noteq> 1"
proof -
  have "(n + (4 - n mod 4) mod 4) mod 4 = (n mod 4 + (4 - n mod 4) mod 4) mod 4"
    by (simp add: mod_add_left_eq)
  with assms show ?thesis by auto
qed

lemma atob_btoa:
  assumes "\<forall>b\<in>set bs. b < (256::nat)"
  shows "atob (btoa (map char_of bs)) = Inr (map char_of bs)"
proof -
  have ns: "map (of_char \<circ> char_of) bs = bs"
    using assms by (induction bs) auto
  define out where "out = map (\<lambda>i. b64_alphabet ! i) (sextets bs)"
  define k where "k = (4 - length out mod 4) mod 4"
  have enc: "btoa (map char_of bs) = out @ replicate k (CHR ''='')"
    by (simp add: btoa_def out_def k_def ns Let_def)
  have lt: "\<forall>v\<in>set (sextets bs). v < 64"
    using assms by (rule sextets_lt)
  have mem: "\<forall>c\<in>set out. c \<in> set b64_alphabet"
    using lt by (auto simp: out_def length_alphabet)
  have len: "length out = length (sextets bs)"
    by (simp add: out_def)
  have k2: "k \<le> 2" and m0: "(length out + k) mod 4 = 0" and m1: "length out mod 4 \<noteq> 1"
    using pad_arith [OF length_sextets_cases [of bs]] unfolding k_def len by simp_all
  have noeq: "CHR ''='' \<notin> set out"
    using mem alphabet_plain by blast
  have filt: "filter (\<lambda>c. \<not> ascii_whitespace c) (out @ replicate k (CHR ''='')) = out @ replicate k (CHR ''='')"
    using mem alphabet_plain by (auto simp: filter_id_conv ascii_whitespace_def)
  have idx: "map b64_index out = map Some (sextets bs)"
    using lt by (simp add: out_def b64_index_nth)
  show ?thesis
    unfolding enc atob_def filt
    using m0 m1 by (simp add: strip_padding_pad [OF noeq k2] idx those_map_Some octets_sextets [OF assms])
qed

text \<open>
  C9. Decoding the base64 encoding of a byte array returns the byte array: for every
  \<open>b\<close>, \<^verbatim>\<open>base64ToArrayBuffer(arrayBufferToBase64(b))\<close> returns normally, with a result
  equal to \<open>b\<close>.
\<close>

theorem base64_roundtrip: "base64ToArrayBuffer (arrayBufferToBase64 b) = Inr b"
proof -
  have byte: "unat w < 256" for w :: "8 word"
    using unsigned_less [of w] by simp
  have bound: "\<forall>n\<in>set (map unat b). n < (256::nat)"
    using byte by simp
  have "atob (btoa (map char_of (map unat b))) = Inr (map char_of (map unat b))"
    using bound by (rule atob_btoa)
  moreover have "map (\<lambda>c. word_of_nat (of_char c) :: 8 word) (map char_of (map unat b)) = b"
    using byte by (induction b) simp_all
  ultimately show ?thesis
    by (simp add: base64ToArrayBuffer_def arrayBufferToBase64_def comp_def)
qed

subsection \<open>Sending, queueing and flushing\<close>


lemma sendMessage_cases:
  "sendMessage s m = s\<lparr>wire := wire s @ [m]\<rparr> \<or>
   sendMessage s m = s\<lparr>messageQueue := messageQueue s @ [m]\<rparr>"
  by (auto simp: sendMessage_def split: option.splits)

lemma flush_empty: "messageQueue s = [] \<Longrightarrow> flushMessageQueue s = Some s"
  by (subst flushMessageQueue.simps) simp


text \<open>
  Otherwise the loop does not return: with the manager connected, a message queued and a
  socket that does not take it, \<^verbatim>\<open>sendMessage\<close> puts every message back.
\<close>

lemma flush_returns_cases:
  "flushMessageQueue s = Some s' \<Longrightarrow> \<not> isConnected s \<or> messageQueue s = [] \<or> sendable s"
proof (induction rule: flushMessageQueue.raw_induct [rotated 1, consumes 1])
  case (1 flush s s')
  show ?case
  proof (rule ccontr)
    assume "\<not> (\<not> isConnected s \<or> messageQueue s = [] \<or> sendable s)"
    then have c: "isConnected s" and ns: "\<not> sendable s" and q: "messageQueue s \<noteq> []" by auto
    from q obtain m rest where mq: "messageQueue s = m # rest" by (cases "messageQueue s") auto
    let ?s = "sendMessage (s\<lparr>messageQueue := rest\<rparr>) m"
    from ns have "\<not> sendable (s\<lparr>messageQueue := rest\<rparr>)" by (simp add: sendable_def)
    then have eq: "?s = s\<lparr>messageQueue := rest @ [m]\<rparr>"
      by (auto simp: sendMessage_def sendable_def split: option.splits)
    from 1(2) mq c have "flush ?s = Some s'" by simp
    then have "\<not> isConnected ?s \<or> messageQueue ?s = [] \<or> sendable ?s" by (rule 1(1))
    with c ns show False unfolding eq by (simp add: sendable_def)
  qed
qed

lemma flush_stuck:
  "isConnected s \<Longrightarrow> messageQueue s \<noteq> [] \<Longrightarrow> \<not> sendable s \<Longrightarrow> flushMessageQueue s = None"
  using flush_returns_cases [of s] by (cases "flushMessageQueue s") auto








subsection \<open>Runs on the example manager\<close>

lemmas handler_defs =
  example_manager_def example_connected_def constructor_def js_or_def connect_def connect_url_def
  onopen_def onclose_def onerror_def onDocUpdate_def onAwarenessChange_def onReconnectTimeout_def
  disconnect_def scheduleReconnect_def sendMessage_def handleMessage_def applyServerUpdate_def
  maxReconnectAttempts_def logUpdate_def Let_def flush_empty

lemmas tag_defs =
  SYNC_STEP1_def SYNC_STEP2_def SYNC_UPDATE_def AWARENESS_UPDATE_def USER_JOINED_def
  USER_LEFT_def ERROR_def PING_def PONG_def SERVER_SHUTDOWN_def


lemma example_connected_reached:
  "run logUpdate example_manager [Connect True, Socket OPEN False, Open] = Some example_connected"
  by (simp add: handler_defs)

subsection \<open>Edits made while disconnected\<close>


text \<open>
  C1. The claim: an update made while the client is disconnected is queued, and sent after
  the next handshake. The code: the connection opens, the socket closes abnormally, the
  document is edited locally (update \<open>[1, 2, 3]\<close>), the reconnect timer fires and the new
  socket opens. The document holds the edit, the queue is empty, and the only frames ever
  written are the two state requests: the update observer returned without calling
  \<^verbatim>\<open>sendMessage\<close>, because \<^verbatim>\<open>isConnected\<close> was false.
\<close>

theorem offline_edit_never_sent:
  "run logUpdate example_manager
     [Connect True, Socket OPEN False, Open, Socket CLOSED False, Close 1006,
      DocUpdate [1, 2, 3] None, Timeout 1 True, Socket OPEN False, Open] =
   Some (example_connected
     \<lparr>yDoc := [[1, 2, 3]], messageQueue := [],
      wire := [sync_step1_message ''d1'', sync_step1_message ''d1''], nextTimer := 2\<rparr>)"
  by (simp add: handler_defs)

subsection \<open>When forwarding of local edits begins\<close>












subsection \<open>Scheduling a reconnect\<close>

lemma scheduleReconnect_pending: "reconnectTimeout s \<noteq> None \<Longrightarrow> scheduleReconnect s = s"
  by (simp add: scheduleReconnect_def)

lemma scheduleReconnect_idle:
  "reconnectTimeout s = None \<Longrightarrow>
   scheduleReconnect s =
     s\<lparr>reconnectAttempts := reconnectAttempts s + 1, reconnectTimeout := Some (nextTimer s),
       timers := timers s @ [(nextTimer s, min (1000 * 2 ^ reconnectAttempts s) 30000)],
       nextTimer := nextTimer s + 1\<rparr>"
  by (simp add: scheduleReconnect_def Let_def)

text \<open>
  C3, as stated, fails: on the connected example manager the shutdown notice with
  \<^verbatim>\<open>reconnect: true\<close> starts a timer of 1000 ms and counts one attempt; the socket stays
  as it is, and no connection is opened by the handler.
\<close>

theorem shutdown_waits_for_backoff_counterexample:
  "handleMessage logUpdate example_connected
     (Some \<lparr>msg_type = Some ''server_shutdown'', document_id = None, update = None, state = None,
            awareness = None, reconnect = Some True\<rparr>) =
   example_connected\<lparr>reconnectAttempts := 1, reconnectTimeout := Some 1, timers := [(1, 1000)],
     nextTimer := 2\<rparr>"
  by (simp add: handler_defs tag_defs)

text \<open>
  C3, amended. On a shutdown notice with \<^verbatim>\<open>reconnect\<close> set the handler does what
  \<^verbatim>\<open>scheduleReconnect\<close> does, and leaves the socket alone: if no reconnect timer is
  pending it starts one with the backoff delay \<open>min (1000 * 2 ^ n) 30000\<close> for the current
  number \<open>n\<close> of attempts, which is at least 1000 ms; if one is pending nothing changes.
\<close>

theorem shutdown_schedules_with_backoff:
  assumes "msg_type m = Some ''server_shutdown''" and "reconnect m = Some True"
  shows "handleMessage applyUpdate s (Some m) = scheduleReconnect s \<and>
     websocket (handleMessage applyUpdate s (Some m)) = websocket s \<and>
     (reconnectTimeout s = None \<longrightarrow>
        timers (handleMessage applyUpdate s (Some m)) =
          timers s @ [(nextTimer s, min (1000 * 2 ^ reconnectAttempts s) 30000)] \<and>
        1000 \<le> min (1000 * 2 ^ reconnectAttempts s) (30000 :: nat)) \<and>
     (reconnectTimeout s \<noteq> None \<longrightarrow> handleMessage applyUpdate s (Some m) = s)"
proof -
  have hm: "handleMessage applyUpdate s (Some m) = scheduleReconnect s"
    using assms by (simp add: handleMessage_def tag_defs)
  show ?thesis
    unfolding hm
    by (cases "reconnectTimeout s") (simp_all add: scheduleReconnect_idle scheduleReconnect_pending)
qed

text \<open>
  C3, amended, on the example: the first notice starts the timer of 1000 ms, a second
  notice while that timer is pending changes nothing.
\<close>

theorem shutdown_schedules_with_backoff_witness:
  "msg_type \<lparr>msg_type = Some ''server_shutdown'', document_id = None, update = None, state = None,
       awareness = None, reconnect = Some True\<rparr> = Some ''server_shutdown'' \<and>
   reconnect \<lparr>msg_type = Some ''server_shutdown'', document_id = None, update = None, state = None,
       awareness = None, reconnect = Some True\<rparr> = Some True \<and>
   reconnectTimeout example_connected = None \<and>
   timers (handleMessage logUpdate example_connected
     (Some \<lparr>msg_type = Some ''server_shutdown'', document_id = None, update = None, state = None,
       awareness = None, reconnect = Some True\<rparr>)) = [(1, 1000)] \<and>
   reconnectTimeout (scheduleReconnect example_connected) = Some 1 \<and>
   handleMessage logUpdate (scheduleReconnect example_connected)
     (Some \<lparr>msg_type = Some ''server_shutdown'', document_id = None, update = None, state = None,
       awareness = None, reconnect = Some True\<rparr>) = scheduleReconnect example_connected"
proof -
  let ?m = "\<lparr>msg_type = Some ''server_shutdown'', document_id = None, update = None, state = None,
       awareness = None, reconnect = Some True\<rparr>"
  have h1: "msg_type ?m = Some ''server_shutdown''" and h2: "reconnect ?m = Some True"
    by simp_all
  have idle: "reconnectTimeout example_connected = None"
    by (simp add: example_connected_def example_manager_def constructor_def)
  have pending: "reconnectTimeout (scheduleReconnect example_connected) = Some 1"
    by (simp add: scheduleReconnect_idle idle)
       (simp add: example_connected_def example_manager_def constructor_def)
  have "timers (handleMessage logUpdate example_connected (Some ?m)) =
      timers example_connected @
        [(nextTimer example_connected, min (1000 * 2 ^ reconnectAttempts example_connected) 30000)]"
    using shutdown_schedules_with_backoff [OF h1 h2, of logUpdate example_connected] idle by blast
  then have c1: "timers (handleMessage logUpdate example_connected (Some ?m)) = [(1, 1000)]"
    by (simp add: example_connected_def example_manager_def constructor_def)
  have c2: "handleMessage logUpdate (scheduleReconnect example_connected) (Some ?m) =
      scheduleReconnect example_connected"
  proof -
    from pending have "reconnectTimeout (scheduleReconnect example_connected) \<noteq> None" by simp
    with shutdown_schedules_with_backoff [OF h1 h2, of logUpdate "scheduleReconnect example_connected"]
    show ?thesis by blast
  qed
  from h1 h2 idle c1 pending c2 show ?thesis by blast
qed

subsection \<open>Closure of the connection\<close>

text \<open>
  C4, as stated, fails: the first connection and the ten reconnections that follow it all
  end with an abnormal closure (code 1006). At the eleventh closure the manager is
  disconnected and starts no timer: ten attempts are counted.
\<close>

theorem reconnect_given_up_counterexample:
  "run logUpdate example_manager
     [Connect True,
      Socket CLOSED False, Close 1006, Timeout 1 True,
      Socket CLOSED False, Close 1006, Timeout 2 True,
      Socket CLOSED False, Close 1006, Timeout 3 True,
      Socket CLOSED False, Close 1006, Timeout 4 True,
      Socket CLOSED False, Close 1006, Timeout 5 True,
      Socket CLOSED False, Close 1006, Timeout 6 True,
      Socket CLOSED False, Close 1006, Timeout 7 True,
      Socket CLOSED False, Close 1006, Timeout 8 True,
      Socket CLOSED False, Close 1006, Timeout 9 True,
      Socket CLOSED False, Close 1006, Timeout 10 True,
      Socket CLOSED False, Close 1006] =
   Some (example_manager
     \<lparr>websocket := Some \<lparr>url = ''ws://localhost:8000/ws/documents/d1?token=t1'',
                          readyState = CLOSED, sendThrows = False\<rparr>,
      reconnectAttempts := 10, reconnectTimeout := None, isConnected := False,
      timers := [], nextTimer := 11\<rparr>)"
  by (simp add: handler_defs)

text \<open>
  C4, amended. Every closure leaves the manager disconnected. A closure with a code other
  than 1000, after fewer than ten attempts and with no reconnect timer pending, starts
  one timer with the delay \<open>min (1000 * 2 ^ n) 30000\<close> ms for the number \<open>n\<close> of attempts
  so far, and counts the attempt. A closure with code 1000, or after ten attempts, or
  with a timer pending, starts no timer and counts nothing. The delays for
  \<open>n = 0, ..., 9\<close> are 1000, 2000, 4000, 8000, 16000 and then 30000 ms.
\<close>

theorem onclose_backoff:
  "\<not> isConnected (onclose s code) \<and>
   (code \<noteq> 1000 \<and> reconnectAttempts s < 10 \<and> reconnectTimeout s = None \<longrightarrow>
      timers (onclose s code) =
        timers s @ [(nextTimer s, min (1000 * 2 ^ reconnectAttempts s) 30000)] \<and>
      reconnectTimeout (onclose s code) = Some (nextTimer s) \<and>
      reconnectAttempts (onclose s code) = reconnectAttempts s + 1) \<and>
   (code = 1000 \<or> 10 \<le> reconnectAttempts s \<or> reconnectTimeout s \<noteq> None \<longrightarrow>
      timers (onclose s code) = timers s \<and>
      reconnectTimeout (onclose s code) = reconnectTimeout s \<and>
      reconnectAttempts (onclose s code) = reconnectAttempts s) \<and>
   map (\<lambda>n. min (1000 * 2 ^ n) 30000) [0, 1, 2, 3, 4, 5, 6, 7, 8, 9] =
     [1000, 2000, 4000, 8000, 16000, 30000, 30000, 30000, 30000, 30000 :: nat]"
  by (cases "reconnectTimeout s")
     (auto simp: onclose_def Let_def maxReconnectAttempts_def scheduleReconnect_def)

text \<open>
  C4, amended, on the example: the closure with code 1006 of the first connection attempt
  starts the timer of 1000 ms; a closure with code 1000 starts none.
\<close>

theorem onclose_backoff_witness:
  "(1006 :: nat) \<noteq> 1000 \<and> reconnectAttempts (connect example_manager True) < 10 \<and>
   reconnectTimeout (connect example_manager True) = None \<and>
   timers (onclose (connect example_manager True) 1006) = [(1, 1000)] \<and>
   reconnectAttempts (onclose (connect example_manager True) 1006) = 1 \<and>
   timers (onclose (connect example_manager True) 1000) = [] \<and>
   reconnectTimeout (onclose (connect example_manager True) 1000) = None"
proof -
  let ?s = "connect example_manager True"
  have h: "(1006 :: nat) \<noteq> 1000 \<and> reconnectAttempts ?s < 10 \<and> reconnectTimeout ?s = None"
    by (simp add: connect_def example_manager_def constructor_def)
  have v: "timers ?s = [] \<and> nextTimer ?s = 1 \<and> reconnectAttempts ?s = 0"
    by (simp add: connect_def example_manager_def constructor_def)
  have "timers (onclose ?s 1006) =
        timers ?s @ [(nextTimer ?s, min (1000 * 2 ^ reconnectAttempts ?s) 30000)] \<and>
      reconnectAttempts (onclose ?s 1006) = reconnectAttempts ?s + 1"
    using onclose_backoff [of ?s 1006] h by blast
  then have c1: "timers (onclose ?s 1006) = [(1, 1000)] \<and> reconnectAttempts (onclose ?s 1006) = 1"
    by (simp add: v)
  have "timers (onclose ?s 1000) = timers ?s \<and>
      reconnectTimeout (onclose ?s 1000) = reconnectTimeout ?s"
    using onclose_backoff [of ?s 1000] by blast
  then have c2: "timers (onclose ?s 1000) = [] \<and> reconnectTimeout (onclose ?s 1000) = None"
    using h v by simp
  from h c1 c2 show ?thesis by blast
qed

subsection \<open>The URL of the connection\<close>

lemma drop_suffix: "u = p @ t \<Longrightarrow> drop (length u - length t) u = t"
  by simp

text \<open>
  C6, as stated, fails: a manager made without a URL argument and without
  \<^verbatim>\<open>NEXT_PUBLIC_WS_URL\<close> connects to a URL whose path is \<^verbatim>\<open>/ws/documents/d1\<close>, which
  is not of the form \<^verbatim>\<open><scheme>://<host>/sync/documents/d1?token=t1\<close>.
\<close>

theorem default_endpoint_counterexample:
  "connect_url example_manager = ''ws://localhost:8000/ws/documents/d1?token=t1'' \<and>
   \<not> sync_endpoint_pattern (connect_url example_manager) (documentId example_manager)
       (token example_manager)"
proof -
  have u: "connect_url example_manager = ''ws://localhost:8000/ws/documents/d1?token=t1''"
    by (simp add: connect_url_def example_manager_def constructor_def js_or_def)
  have "\<not> sync_endpoint_pattern ''ws://localhost:8000/ws/documents/d1?token=t1'' ''d1'' ''t1''"
  proof
    assume "sync_endpoint_pattern ''ws://localhost:8000/ws/documents/d1?token=t1'' ''d1'' ''t1''"
    then obtain scheme host where
      "''ws://localhost:8000/ws/documents/d1?token=t1'' =
         scheme @ ''://'' @ host @ ''/sync/documents/d1?token=t1''"
      by (auto simp: sync_endpoint_pattern_def)
    then have "''ws://localhost:8000/ws/documents/d1?token=t1'' =
        (scheme @ ''://'' @ host) @ ''/sync/documents/d1?token=t1''"
      by simp
    then have "drop (length ''ws://localhost:8000/ws/documents/d1?token=t1'' -
          length ''/sync/documents/d1?token=t1'')
        ''ws://localhost:8000/ws/documents/d1?token=t1'' = ''/sync/documents/d1?token=t1''"
      by (rule drop_suffix)
    then show False by simp
  qed
  with u show ?thesis by (simp add: example_manager_def constructor_def)
qed

text \<open>
  C6, amended. The URL is the base URL of the manager followed by
  \<^verbatim>\<open>/documents/{document_id}?token={credential}\<close>; the base URL is the constructor's
  argument, else \<^verbatim>\<open>NEXT_PUBLIC_WS_URL\<close>, else \<^verbatim>\<open>ws://localhost:8000/ws\<close>, so that the
  default URL is \<^verbatim>\<open>ws://localhost:8000/ws/documents/{document_id}?token={credential}\<close>.
  \<^verbatim>\<open>connect\<close> opens the socket with this URL. The URL has the form
  \<^verbatim>\<open><scheme>://<host>/sync/documents/{document_id}?token={credential}\<close> when the base URL
  is \<^verbatim>\<open><scheme>://<host>/sync\<close>.
\<close>

theorem connect_url_shape:
  "connect_url (constructor doc docId tok wsUrlArg env) =
     js_or wsUrlArg (js_or env ''ws://localhost:8000/ws'') @ ''/documents/'' @ docId @ ''?token='' @ tok \<and>
   connect_url (constructor doc docId tok None None) =
     ''ws://localhost:8000/ws/documents/'' @ docId @ ''?token='' @ tok \<and>
   map_option url (websocket (connect s True)) =
     Some (wsUrl s @ ''/documents/'' @ documentId s @ ''?token='' @ token s) \<and>
   (wsUrl s = scheme @ ''://'' @ host @ ''/sync'' \<longrightarrow>
      sync_endpoint_pattern (connect_url s) (documentId s) (token s))"
  by (auto simp: connect_url_def constructor_def js_or_def connect_def sync_endpoint_pattern_def)

text \<open>
  C6, amended, on an example: with the base URL \<^verbatim>\<open>wss://example.org/sync\<close> the URL of
  the connection has the form of the specification.
\<close>

theorem connect_url_shape_witness:
  "wsUrl (constructor ([] :: 8 word list list) ''d1'' ''t1'' (Some ''wss://example.org/sync'') None) =
     ''wss'' @ ''://'' @ ''example.org'' @ ''/sync'' \<and>
   sync_endpoint_pattern
     (connect_url (constructor ([] :: 8 word list list) ''d1'' ''t1'' (Some ''wss://example.org/sync'') None))
     ''d1'' ''t1''"
proof -
  let ?s = "constructor ([] :: 8 word list list) ''d1'' ''t1'' (Some ''wss://example.org/sync'') None"
  have h: "wsUrl ?s = ''wss'' @ ''://'' @ ''example.org'' @ ''/sync''"
    by (simp add: constructor_def js_or_def)
  have "sync_endpoint_pattern (connect_url ?s) (documentId ?s) (token ?s)"
    using connect_url_shape [of "[]" "''d1''" "''t1''" None None ?s "''wss''" "''example.org''"] h
    by blast
  with h show ?thesis by (simp add: constructor_def)
qed

subsection \<open>Heartbeat\<close>

text \<open>
  C7, as stated, fails: the tags of the heartbeat are \<^verbatim>\<open>ping\<close> and \<^verbatim>\<open>pong\<close>, and a message
  with the tag \<^verbatim>\<open>heartbeat_ping\<close> gets no reply: the connected example manager is left
  as it is, with nothing written and nothing queued.
\<close>

theorem heartbeat_names_counterexample:
  "PING \<noteq> ''heartbeat_ping'' \<and> PONG \<noteq> ''heartbeat_pong'' \<and>
   handleMessage logUpdate example_connected
     (Some \<lparr>msg_type = Some ''heartbeat_ping'', document_id = None, update = None, state = None,
            awareness = None, reconnect = None\<rparr>) = example_connected"
  by (simp add: handleMessage_def tag_defs)

text \<open>
  C7, amended. The tags on the wire are \<^verbatim>\<open>ping\<close> and \<^verbatim>\<open>pong\<close>. For every message with
  the tag \<^verbatim>\<open>ping\<close> the handler passes one message with the tag \<^verbatim>\<open>pong\<close> to
  \<^verbatim>\<open>sendMessage\<close>: exactly one reply is added, to the wire or else to the queue, and to
  the wire when the socket is open and takes the frame.
\<close>

theorem ping_answered_by_one_pong:
  assumes "msg_type m = Some ''ping''"
  shows "PING = ''ping'' \<and> msg_type pong_message = Some ''pong'' \<and>
     handleMessage applyUpdate s (Some m) = sendMessage s pong_message \<and>
     (wire (handleMessage applyUpdate s (Some m)) = wire s @ [pong_message] \<and>
        messageQueue (handleMessage applyUpdate s (Some m)) = messageQueue s \<or>
      wire (handleMessage applyUpdate s (Some m)) = wire s \<and>
        messageQueue (handleMessage applyUpdate s (Some m)) = messageQueue s @ [pong_message]) \<and>
     (websocket s = Some ws \<and> readyState ws = OPEN \<and> \<not> sendThrows ws \<longrightarrow>
        wire (handleMessage applyUpdate s (Some m)) = wire s @ [pong_message])"
proof -
  have hm: "handleMessage applyUpdate s (Some m) = sendMessage s pong_message"
    using assms by (simp add: handleMessage_def tag_defs)
  have "websocket s = Some ws \<and> readyState ws = OPEN \<and> \<not> sendThrows ws \<longrightarrow>
        wire (sendMessage s pong_message) = wire s @ [pong_message]"
    by (simp add: sendMessage_def)
  with sendMessage_cases [of s pong_message] show ?thesis
    unfolding hm by (auto simp: PING_def pong_message_def PONG_def)
qed

text \<open>
  C7, amended, on the example: the connected manager answers a \<^verbatim>\<open>ping\<close> with one
  \<^verbatim>\<open>pong\<close> on the wire.
\<close>

theorem ping_answered_by_one_pong_witness:
  "msg_type \<lparr>msg_type = Some ''ping'', document_id = None, update = None, state = None,
       awareness = None, reconnect = None\<rparr> = Some ''ping'' \<and>
   websocket example_connected =
     Some \<lparr>url = ''ws://localhost:8000/ws/documents/d1?token=t1'', readyState = OPEN,
           sendThrows = False\<rparr> \<and>
   wire (handleMessage logUpdate example_connected
     (Some \<lparr>msg_type = Some ''ping'', document_id = None, update = None, state = None,
       awareness = None, reconnect = None\<rparr>)) = [sync_step1_message ''d1'', pong_message]"
proof -
  let ?m = "\<lparr>msg_type = Some ''ping'', document_id = None, update = None, state = None,
       awareness = None, reconnect = None\<rparr>"
  let ?ws = "\<lparr>url = ''ws://localhost:8000/ws/documents/d1?token=t1'', readyState = OPEN,
       sendThrows = False\<rparr>"
  have h: "msg_type ?m = Some ''ping''" by simp
  have w: "websocket example_connected = Some ?ws"
    by (simp add: example_connected_def example_manager_def constructor_def connect_url_def js_or_def)
  have r: "readyState ?ws = OPEN \<and> \<not> sendThrows ?ws" by simp
  have "wire (handleMessage logUpdate example_connected (Some ?m)) =
      wire example_connected @ [pong_message]"
    using ping_answered_by_one_pong [OF h, of logUpdate example_connected ?ws] w r by blast
  then have "wire (handleMessage logUpdate example_connected (Some ?m)) =
      [sync_step1_message ''d1'', pong_message]"
    by (simp add: example_connected_def)
  with h w show ?thesis by blast
qed

subsection \<open>Unknown message types\<close>

text \<open>
  C8. For every incoming message whose type is none of the message types of the protocol
  (or is absent), the handler returns the manager as it was: the document, the socket, the
  connection flag, the queue, the wire and the timers are unchanged.
\<close>

theorem unknown_type_ignored:
  assumes "msg_type m \<notin> Some ` set MessageType"
  shows "handleMessage applyUpdate s (Some m) = s"
  using assms by (simp add: handleMessage_def MessageType_def)

text \<open>
  C8 on the example: a message with the tag \<^verbatim>\<open>resync\<close>, carrying an update, a state and
  the reconnect flag, leaves the connected manager as it is.
\<close>

theorem unknown_type_ignored_witness:
  "msg_type \<lparr>msg_type = Some ''resync'', document_id = Some ''d1'', update = Some ''AQID'',
       state = Some ''AQID'', awareness = None, reconnect = Some True\<rparr> \<notin> Some ` set MessageType \<and>
   handleMessage logUpdate example_connected
     (Some \<lparr>msg_type = Some ''resync'', document_id = Some ''d1'', update = Some ''AQID'',
       state = Some ''AQID'', awareness = None, reconnect = Some True\<rparr>) = example_connected"
proof -
  let ?m = "\<lparr>msg_type = Some ''resync'', document_id = Some ''d1'', update = Some ''AQID'',
       state = Some ''AQID'', awareness = None, reconnect = Some True\<rparr>"
  have h: "msg_type ?m \<notin> Some ` set MessageType"
    by (simp add: MessageType_def tag_defs)
  from h unknown_type_ignored [OF h, of logUpdate example_connected] show ?thesis by simp
qed

subsection \<open>The reconnect timer\<close>



























end
